theory Spec2Isabelle
  imports Main
begin

section \<open>The host's state cell\<close>

text \<open>
  Modelled from the spec: the repository's hooks are written against React's
  \<^verbatim>\<open>useState\<close>, which belongs to the host runtime and is not in the sources.
  Its contract (section 4.1 of the spec, and the comments of
  \<^verbatim>\<open>src/pages/AdvancedSetState.tsx\<close>: "Each callback gets the updated state from
  previous call") is: a write is a literal or a function of the previous value; the writes
  of one batch are queued and applied in order to the latest pending value when the
  component renders again; every closure created by a render reads the value of that
  render.
\<close>

datatype 'a SetStateAction = Value 'a | Updater "'a \<Rightarrow> 'a"

fun applyAction :: "'a SetStateAction \<Rightarrow> 'a \<Rightarrow> 'a" where
  "applyAction (Value v) prev = v"
| "applyAction (Updater f) prev = f prev"

record 'a cell =
  committed :: 'a
  queue :: "'a SetStateAction list"

definition useState :: "'a \<Rightarrow> 'a cell" where
  "useState initial = \<lparr>committed = initial, queue = []\<rparr>"

definition setState :: "'a SetStateAction \<Rightarrow> 'a cell \<Rightarrow> 'a cell" where
  "setState a c = c\<lparr>queue := queue c @ [a]\<rparr>"

definition pending :: "'a cell \<Rightarrow> 'a" where
  "pending c = foldl (\<lambda>s a. applyAction a s) (committed c) (queue c)"

definition rerender :: "'a cell \<Rightarrow> 'a cell" where
  "rerender c = \<lparr>committed = pending c, queue = []\<rparr>"

section \<open>useCounter\<close>

text \<open>
  \<^verbatim>\<open>useCounter(initialValue)\<close>: one cell; \<^verbatim>\<open>increment\<close> and \<^verbatim>\<open>decrement\<close> pass a
  function of the previous count, \<^verbatim>\<open>reset\<close> passes the literal \<^verbatim>\<open>initialValue\<close>.
  Counts are integers here (the source's numbers are JavaScript numbers).
\<close>

definition useCounter :: "int \<Rightarrow> int cell" where
  "useCounter initialValue = useState initialValue"

definition increment :: "int cell \<Rightarrow> int cell" where
  "increment c = setState (Updater (\<lambda>prevCount. prevCount + 1)) c"

definition decrement :: "int cell \<Rightarrow> int cell" where
  "decrement c = setState (Updater (\<lambda>prevCount. prevCount - 1)) c"

definition useCounter_reset :: "int \<Rightarrow> int cell \<Rightarrow> int cell" where
  "useCounter_reset initialValue c = setState (Value initialValue) c"

datatype counter_call = Increment | Decrement | Reset

fun counter_handler :: "int \<Rightarrow> counter_call \<Rightarrow> int cell \<Rightarrow> int cell" where
  "counter_handler initialValue Increment = increment"
| "counter_handler initialValue Decrement = decrement"
| "counter_handler initialValue Reset = useCounter_reset initialValue"

text \<open>What each mutator of the counter means as a function of the previous count.\<close>

fun counter_updater :: "int \<Rightarrow> counter_call \<Rightarrow> int \<Rightarrow> int" where
  "counter_updater initialValue Increment n = n + 1"
| "counter_updater initialValue Decrement n = n - 1"
| "counter_updater initialValue Reset n = initialValue"

section \<open>useToggle\<close>

text \<open>
  \<^verbatim>\<open>useToggle(initialValue)\<close>: one boolean cell; \<^verbatim>\<open>toggle\<close> passes
  \<^verbatim>\<open>prevValue => !prevValue\<close>, \<^verbatim>\<open>setTrue\<close> and \<^verbatim>\<open>setFalse\<close> pass the literals.
\<close>

definition useToggle :: "bool \<Rightarrow> bool cell" where
  "useToggle initialValue = useState initialValue"

definition toggle :: "bool cell \<Rightarrow> bool cell" where
  "toggle c = setState (Updater (\<lambda>prevValue. \<not> prevValue)) c"

definition setTrue :: "bool cell \<Rightarrow> bool cell" where
  "setTrue c = setState (Value True) c"

definition setFalse :: "bool cell \<Rightarrow> bool cell" where
  "setFalse c = setState (Value False) c"

section \<open>useForm\<close>

text \<open>
  \<^verbatim>\<open>useForm(initialValues)\<close>: two cells, \<^verbatim>\<open>values\<close> and \<^verbatim>\<open>errors\<close>, both objects
  indexed by field name (the fields \<open>form_values\<close> and \<open>form_errors\<close> below). The hook only
  writes the values; they are a map from field names. It reads the errors itself,
  \<^verbatim>\<open>errors[name]\<close>, so they are kept as JavaScript reads them: an object holds its own
  properties, each a message or \<^verbatim>\<open>undefined\<close> (\<open>Some None\<close>, as written by
  \<^verbatim>\<open>{...prev, [name]: undefined}\<close>), and a name that is no own property is looked up in
  \<^verbatim>\<open>Object.prototype\<close>, the prototype of \<^verbatim>\<open>{}\<close> and of every object made by a
  spread. The members of \<^verbatim>\<open>Object.prototype\<close> are functions (and an object at
  \<^verbatim>\<open>__proto__\<close>), all truthy; a string is truthy when it is not empty.
\<close>

type_synonym errors_object = "string \<rightharpoonup> string option"

datatype property = Text string | Undefined | Builtin

definition Object_prototype :: "string list" where
  "Object_prototype =
     [''constructor'', ''toString'', ''toLocaleString'', ''valueOf'', ''hasOwnProperty'',
      ''isPrototypeOf'', ''propertyIsEnumerable'', ''__proto__'', ''__defineGetter__'',
      ''__defineSetter__'', ''__lookupGetter__'', ''__lookupSetter__'']"

definition get_property :: "errors_object \<Rightarrow> string \<Rightarrow> property" where
  "get_property obj name =
     (case obj name of
        Some (Some m) \<Rightarrow> Text m
      | Some None \<Rightarrow> Undefined
      | None \<Rightarrow> if List.member Object_prototype name then Builtin else Undefined)"

definition truthy :: "property \<Rightarrow> bool" where
  "truthy x = (case x of Text m \<Rightarrow> m \<noteq> [] | Undefined \<Rightarrow> False | Builtin \<Rightarrow> True)"

text \<open>The message an errors object records for a field, if any.\<close>

definition message :: "errors_object \<Rightarrow> string \<rightharpoonup> string" where
  "message obj name = (case obj name of Some (Some m) \<Rightarrow> Some m | _ \<Rightarrow> None)"

definition nonempty_message :: "property \<Rightarrow> bool" where
  "nonempty_message x = (case x of Text m \<Rightarrow> m \<noteq> [] | _ \<Rightarrow> False)"

record 'v form =
  form_values :: "(string \<rightharpoonup> 'v) cell"
  form_errors :: "errors_object cell"

definition useForm :: "(string \<rightharpoonup> 'v) \<Rightarrow> 'v form" where
  "useForm initialValues =
     \<lparr>form_values = useState initialValues, form_errors = useState Map.empty\<rparr>"

text \<open>
  \<^verbatim>\<open>setValue\<close> closes over the \<^verbatim>\<open>errors\<close> of the render that created it
  (\<^verbatim>\<open>useCallback(..., [errors])\<close>): the test \<^verbatim>\<open>if (errors[name])\<close> reads the
  committed value of the cell, not the pending one.
\<close>

definition useForm_setValue :: "string \<Rightarrow> 'v \<Rightarrow> 'v form \<Rightarrow> 'v form" where
  "useForm_setValue name v s =
     (let s1 = s\<lparr>form_values := setState (Updater (\<lambda>prev. prev(name \<mapsto> v))) (form_values s)\<rparr>
      in if truthy (get_property (committed (form_errors s)) name)
         then s1\<lparr>form_errors :=
                  setState (Updater (\<lambda>prev. prev(name \<mapsto> None))) (form_errors s1)\<rparr>
         else s1)"

definition useForm_setError :: "string \<Rightarrow> string \<Rightarrow> 'v form \<Rightarrow> 'v form" where
  "useForm_setError name err s =
     s\<lparr>form_errors := setState (Updater (\<lambda>prev. prev(name \<mapsto> Some err))) (form_errors s)\<rparr>"

definition useForm_reset :: "(string \<rightharpoonup> 'v) \<Rightarrow> 'v form \<Rightarrow> 'v form" where
  "useForm_reset initialValues s =
     s\<lparr>form_values := setState (Value initialValues) (form_values s),
       form_errors := setState (Value Map.empty) (form_errors s)\<rparr>"

definition form_rerender :: "'v form \<Rightarrow> 'v form" where
  "form_rerender s =
     \<lparr>form_values = rerender (form_values s), form_errors = rerender (form_errors s)\<rparr>"

section \<open>Thrown values, the console and the storage service\<close>

text \<open>
  A thrown value is an instance of \<^verbatim>\<open>Error\<close> with its message, or anything else.
  \<^verbatim>\<open>console.error(text, error)\<close> appends a pair to the console.
\<close>

datatype thrown = Error string | NonError

type_synonym console = "(string \<times> thrown) list"

text \<open>
  Modelled from the spec: \<^verbatim>\<open>window.localStorage\<close> is the host's, the storage service
  of section 6: \<^verbatim>\<open>get(key)\<close> gives the serialized value or nothing, \<^verbatim>\<open>set(key, value)\<close>
  stores it or fails with a write error. Here a store holds its items, the longest value it
  accepts (\<open>quota\<close>) and whether access to it is denied; a denied store throws on every
  call, and a value longer than the quota is refused.
\<close>

record localStorage =
  items :: "string \<rightharpoonup> string"
  quota :: nat
  denied :: bool

definition getItem :: "localStorage \<Rightarrow> string \<Rightarrow> thrown + string option" where
  "getItem ls key = (if denied ls then Inl (Error ''SecurityError'') else Inr (items ls key))"

definition setItem :: "localStorage \<Rightarrow> string \<Rightarrow> string \<Rightarrow> thrown + localStorage" where
  "setItem ls key str =
     (if denied ls then Inl (Error ''SecurityError'')
      else if quota ls < length str then Inl (Error ''QuotaExceededError'')
      else Inr (ls\<lparr>items := (items ls)(key \<mapsto> str)\<rparr>))"

section \<open>useLocalStorage\<close>

text \<open>
  \<^verbatim>\<open>useLocalStorage(key, initialValue)\<close>. \<^verbatim>\<open>JSON.parse\<close> and \<^verbatim>\<open>JSON.stringify\<close> are
  the host's and are parameters: \<open>parse\<close> gives the value or what it throws, \<open>stringify\<close>
  gives the string handed to \<^verbatim>\<open>setItem\<close> or what it throws. The state of the hook is
  its cell, the store and the console.
\<close>

record 'a stored =
  storedValue :: "'a cell"
  storage :: localStorage
  console_log :: console

text \<open>The body of the \<^verbatim>\<open>try\<close> of the lazy initializer: \<^verbatim>\<open>item ? JSON.parse(item) : initialValue\<close>.\<close>

definition read_item :: "(string \<Rightarrow> thrown + 'a) \<Rightarrow> string \<Rightarrow> 'a \<Rightarrow> localStorage \<Rightarrow> thrown + 'a" where
  "read_item parse key initialValue ls =
     (case getItem ls key of
        Inl error \<Rightarrow> Inl error
      | Inr item \<Rightarrow>
          (case item of
             None \<Rightarrow> Inr initialValue
           | Some str \<Rightarrow> if str \<noteq> [] then parse str else Inr initialValue))"

definition useLocalStorage ::
  "(string \<Rightarrow> thrown + 'a) \<Rightarrow> string \<Rightarrow> 'a \<Rightarrow> localStorage \<Rightarrow> console \<Rightarrow> 'a stored" where
  "useLocalStorage parse key initialValue ls log =
     (case read_item parse key initialValue ls of
        Inl error \<Rightarrow>
          \<lparr>storedValue = useState initialValue, storage = ls,
           console_log = log @ [(''Error reading localStorage key \"'' @ key @ ''\":'', error)]\<rparr>
      | Inr v \<Rightarrow> \<lparr>storedValue = useState v, storage = ls, console_log = log\<rparr>)"

text \<open>
  \<^verbatim>\<open>setValue\<close> closes over \<^verbatim>\<open>storedValue\<close> (\<^verbatim>\<open>useCallback(..., [key, storedValue])\<close>):
  a function argument is applied to the value of the render that created the handler, and
  the result is written to the cell as a literal.
\<close>

definition useLocalStorage_setValue ::
  "('a \<Rightarrow> thrown + string) \<Rightarrow> string \<Rightarrow> 'a SetStateAction \<Rightarrow> 'a stored \<Rightarrow> 'a stored" where
  "useLocalStorage_setValue stringify key value s =
     (let valueToStore = (case value of Updater f \<Rightarrow> f (committed (storedValue s)) | Value v \<Rightarrow> v);
          s1 = s\<lparr>storedValue := setState (Value valueToStore) (storedValue s)\<rparr>;
          caught = (\<lambda>error. s1\<lparr>console_log := console_log s1 @
                      [(''Error setting localStorage key \"'' @ key @ ''\":'', error)]\<rparr>)
      in case stringify valueToStore of
           Inl error \<Rightarrow> caught error
         | Inr str \<Rightarrow>
             (case setItem (storage s1) key str of
                Inl error \<Rightarrow> caught error
              | Inr ls \<Rightarrow> s1\<lparr>storage := ls\<rparr>))"

definition stored_rerender :: "'a stored \<Rightarrow> 'a stored" where
  "stored_rerender s = s\<lparr>storedValue := rerender (storedValue s)\<rparr>"

text \<open>
  JSON restricted to the booleans, to run the hook on: \<^verbatim>\<open>JSON.stringify(true)\<close> is
  \<^verbatim>\<open>"true"\<close>, and \<^verbatim>\<open>JSON.parse\<close> throws a \<^verbatim>\<open>SyntaxError\<close> on a string that is no
  JSON text.
\<close>

definition stringify_bool :: "bool \<Rightarrow> thrown + string" where
  "stringify_bool b = Inr (if b then ''true'' else ''false'')"

definition parse_bool :: "string \<Rightarrow> thrown + bool" where
  "parse_bool str =
     (if str = ''true'' then Inr True
      else if str = ''false'' then Inr False
      else Inl (Error ''SyntaxError''))"

text \<open>
  A few JavaScript values with the host's serializer on them, to run the hook on values
  that JSON does not carry: \<^verbatim>\<open>JSON.stringify(NaN)\<close> is \<^verbatim>\<open>"null"\<close>;
  \<^verbatim>\<open>JSON.stringify(undefined)\<close> is \<^verbatim>\<open>undefined\<close>, which \<^verbatim>\<open>setItem\<close> stores as the
  string \<^verbatim>\<open>"undefined"\<close>; \<^verbatim>\<open>JSON.parse\<close> reads \<^verbatim>\<open>"null"\<close>, \<^verbatim>\<open>"true"\<close> and
  \<^verbatim>\<open>"false"\<close> and throws a \<^verbatim>\<open>SyntaxError\<close> on \<^verbatim>\<open>"undefined"\<close>.
\<close>

datatype js_value = JUndefined | JNull | JNaN | JBool bool

definition stringify_js :: "js_value \<Rightarrow> thrown + string" where
  "stringify_js v =
     Inr (case v of
            JUndefined \<Rightarrow> ''undefined''
          | JNull \<Rightarrow> ''null''
          | JNaN \<Rightarrow> ''null''
          | JBool b \<Rightarrow> if b then ''true'' else ''false'')"

definition parse_js :: "string \<Rightarrow> thrown + js_value" where
  "parse_js str =
     (if str = ''null'' then Inr JNull
      else if str = ''true'' then Inr (JBool True)
      else if str = ''false'' then Inr (JBool False)
      else Inl (Error ''SyntaxError''))"

section \<open>useApi\<close>

text \<open>
  \<^verbatim>\<open>useApi(url)\<close>: three cells, every write a literal, so the state is the record of
  their values. \<^verbatim>\<open>fetch\<close> is the host's: a request settles as a rejection with the
  thrown value, or as a response with its \<^verbatim>\<open>ok\<close> flag, its status and the outcome of
  \<^verbatim>\<open>response.json()\<close>. \<^verbatim>\<open>fetchData\<close> runs in two steps: up to the first
  \<^verbatim>\<open>await\<close> when it is called, and the rest when the request settles.
\<close>

record 'a api =
  data :: "'a option"
  loading :: bool
  error :: "string option"

record 'a response =
  ok :: bool
  status :: nat
  json :: "thrown + 'a"

definition useApi :: "'a api" where
  "useApi = \<lparr>data = None, loading = False, error = None\<rparr>"

definition digit :: "nat \<Rightarrow> char" where
  "digit d = char_of (48 + d)"

function show_nat :: "nat \<Rightarrow> string" where
  "show_nat n = (if n < 10 then [digit n] else show_nat (n div 10) @ [digit (n mod 10)])"
  by pat_completeness auto
termination
  by (relation "measure id") auto

declare show_nat.simps [simp del]

definition fetchData_start :: "'a api \<Rightarrow> 'a api" where
  "fetchData_start s = s\<lparr>loading := True, error := None\<rparr>"

text \<open>The body of the \<^verbatim>\<open>try\<close>: the parsed result, or what was thrown.\<close>

definition fetchData_try :: "thrown + 'a response \<Rightarrow> thrown + 'a" where
  "fetchData_try settled =
     (case settled of
        Inl err \<Rightarrow> Inl err
      | Inr response \<Rightarrow>
          if \<not> ok response
          then Inl (Error (''HTTP error! status: '' @ show_nat (status response)))
          else json response)"

definition error_message :: "thrown \<Rightarrow> string" where
  "error_message err = (case err of Error m \<Rightarrow> m | NonError \<Rightarrow> ''An error occurred'')"

definition fetchData_settle :: "thrown + 'a response \<Rightarrow> 'a api \<Rightarrow> 'a api" where
  "fetchData_settle settled s =
     (let s1 = (case fetchData_try settled of
                  Inr result \<Rightarrow> s\<lparr>data := Some result\<rparr>
                | Inl err \<Rightarrow> s\<lparr>error := Some (error_message err)\<rparr>)
      in s1\<lparr>loading := False\<rparr>)"

text \<open>
  A run of the hook: calls of \<^verbatim>\<open>fetchData\<close> (by the effect or by \<^verbatim>\<open>refetch\<close>) and
  settlements of requests, in the order in which they happen. The hook keeps nothing that
  tells the requests apart.
\<close>

datatype 'a api_event = Fetch | Settle "thrown + 'a response"

fun api_step :: "'a api \<Rightarrow> 'a api_event \<Rightarrow> 'a api" where
  "api_step s Fetch = fetchData_start s"
| "api_step s (Settle settled) = fetchData_settle settled s"

definition api_run :: "'a api \<Rightarrow> 'a api_event list \<Rightarrow> 'a api" where
  "api_run s es = foldl api_step s es"

section \<open>usePrevious\<close>

text \<open>
  \<^verbatim>\<open>usePrevious(value)\<close>: a ref, first \<^verbatim>\<open>undefined\<close> (here \<open>None\<close>). A render returns
  \<^verbatim>\<open>ref.current\<close> and registers an effect without dependencies, which the host runs
  after the render is committed: \<^verbatim>\<open>ref.current = value\<close>.
\<close>

definition usePrevious :: "'a \<Rightarrow> 'a option \<Rightarrow> 'a option \<times> ('a option \<Rightarrow> 'a option)" where
  "usePrevious v ref = (ref, \<lambda>current. Some v)"

fun previous_renders :: "'a option \<Rightarrow> 'a list \<Rightarrow> 'a option list" where
  "previous_renders ref [] = []"
| "previous_renders ref (v # vs) =
     (case usePrevious v ref of (returned, effect) \<Rightarrow> returned # previous_renders (effect ref) vs)"

section \<open>useDebounce\<close>














section \<open>Properties of the state cell\<close>

lemma pending_setState [simp]: "pending (setState a c) = applyAction a (pending c)"
  by (simp add: pending_def setState_def)

lemma pending_useState [simp]: "pending (useState v) = v"
  by (simp add: pending_def useState_def)

lemma pending_rerender [simp]: "pending (rerender c) = pending c"
  by (simp add: pending_def rerender_def)

lemma committed_rerender [simp]: "committed (rerender c) = pending c"
  by (simp add: rerender_def)

lemma queue_rerender [simp]: "queue (rerender c) = []"
  by (simp add: rerender_def)

lemma committed_setState [simp]: "committed (setState a c) = committed c"
  by (simp add: setState_def)

lemma committed_useState [simp]: "committed (useState v) = v"
  by (simp add: useState_def)

section \<open>useToggle: the value sequence and the three mutators\<close>

text \<open>
  C9. A toggle created with \<open>False\<close> and toggled three times, with a render after each
  call, shows \<open>False\<close>, \<open>True\<close>, \<open>False\<close>, \<open>True\<close>; and each mutator acts on the latest
  pending value of the cell as a pure function of it: \<open>toggle\<close> negates it, \<open>setTrue\<close>
  makes it \<open>True\<close>, \<open>setFalse\<close> makes it \<open>False\<close>; the literals that \<open>setTrue\<close> and
  \<open>setFalse\<close> write act as the constant updaters.
\<close>

theorem useToggle_sequence:
  "(let c0 = useToggle False;
        c1 = rerender (toggle c0);
        c2 = rerender (toggle c1);
        c3 = rerender (toggle c2)
    in map committed [c0, c1, c2, c3]) = [False, True, False, True]
   \<and> committed (rerender (toggle c)) = (\<not> committed (rerender c))
   \<and> committed (rerender (setTrue c)) = True
   \<and> committed (rerender (setFalse c)) = False
   \<and> pending (setTrue c) = pending (setState (Updater (\<lambda>prevValue. True)) c)
   \<and> pending (setFalse c) = pending (setState (Updater (\<lambda>prevValue. False)) c)"
  by (simp add: useToggle_def toggle_def setTrue_def setFalse_def Let_def)

section \<open>useCounter and useLocalStorage: the writes of one batch\<close>

lemma pending_empty_queue: "queue c = [] \<Longrightarrow> pending c = committed c"
  by (simp add: pending_def)

text \<open>
  The mutators of the counter compose: whatever the calls of a batch, the pending count is
  the left fold of their updaters over the count the batch started from.
\<close>

lemma useCounter_batch:
  "pending (foldl (\<lambda>c call. counter_handler initialValue call c) c calls)
     = foldl (\<lambda>n call. counter_updater initialValue call n) (pending c) calls"
proof (induction calls rule: rev_induct)
  case Nil
  show ?case by simp
next
  case (snoc call calls)
  then show ?case
    by (cases call) (simp_all add: increment_def decrement_def useCounter_reset_def)
qed

text \<open>
  C2. The setter of \<^verbatim>\<open>useLocalStorage\<close> does not compose. A boolean stored as \<open>False\<close>
  and two calls \<^verbatim>\<open>setValue(val => !val)\<close> in one batch: both functions are applied to
  the value of the render, the cell ends at \<open>True\<close> and \<^verbatim>\<open>"true"\<close> is stored, where
  the left fold of the two updaters over \<open>False\<close> is \<open>False\<close>.
\<close>

theorem useLocalStorage_setValue_stale:
  "(let s0 = useLocalStorage parse_bool ''flag'' False
               \<lparr>items = Map.empty, quota = 100, denied = False\<rparr> [];
        s2 = useLocalStorage_setValue stringify_bool ''flag'' (Updater (\<lambda>val. \<not> val))
               (useLocalStorage_setValue stringify_bool ''flag'' (Updater (\<lambda>val. \<not> val)) s0)
    in committed (storedValue s0) = False
       \<and> committed (storedValue (stored_rerender s2)) = True
       \<and> items (storage s2) ''flag'' = Some ''true''
       \<and> foldl (\<lambda>v a. applyAction a v) (committed (storedValue s0))
            [Updater (\<lambda>val. \<not> val), Updater (\<lambda>val. \<not> val)] = False)"
  by (simp add: useLocalStorage_def read_item_def getItem_def useLocalStorage_setValue_def
        stringify_bool_def setItem_def stored_rerender_def Let_def)

section \<open>useLocalStorage: reading back and persisting\<close>

lemma getItem_setItem: "setItem ls key str = Inr ls' \<Longrightarrow> getItem ls' key = Inr (Some str)"
  by (auto simp add: setItem_def getItem_def split: if_splits)

text \<open>
  C3, as claimed for every value, fails. \<^verbatim>\<open>NaN\<close> is stored as \<^verbatim>\<open>"null"\<close> and a fresh
  instance starts at \<^verbatim>\<open>null\<close>; \<^verbatim>\<open>undefined\<close> is stored as \<^verbatim>\<open>"undefined"\<close>, which does
  not parse, and a fresh instance starts at the default; and a write that the store
  refuses (here \<^verbatim>\<open>"false"\<close> in a store that takes four characters) leaves nothing to
  read back, so a fresh instance starts at the default.
\<close>

theorem useLocalStorage_round_trip_counterexample:
  "(let ls = \<lparr>items = Map.empty, quota = 100, denied = False\<rparr>;
        s = useLocalStorage parse_js ''k'' (JBool True) ls [];
        nan = useLocalStorage_setValue stringify_js ''k'' (Value JNaN) s;
        undef = useLocalStorage_setValue stringify_js ''k'' (Value JUndefined) s;
        small = \<lparr>items = Map.empty, quota = 4, denied = False\<rparr>;
        b = useLocalStorage parse_bool ''flag'' True small [];
        refused = useLocalStorage_setValue stringify_bool ''flag'' (Value False) b
    in pending (storedValue nan) = JNaN
       \<and> committed (storedValue (useLocalStorage parse_js ''k'' (JBool True) (storage nan) []))
            = JNull
       \<and> pending (storedValue undef) = JUndefined
       \<and> committed (storedValue (useLocalStorage parse_js ''k'' (JBool True) (storage undef) []))
            = JBool True
       \<and> pending (storedValue refused) = False
       \<and> committed (storedValue (useLocalStorage parse_bool ''flag'' True (storage refused) []))
            = True)"
  by (simp add: Let_def useLocalStorage_def read_item_def useLocalStorage_setValue_def
      setItem_def getItem_def stringify_js_def parse_js_def stringify_bool_def parse_bool_def)

text \<open>
  C3, amended. Round trip: when a write of \<open>v\<close> (the literal, or the function applied to
  the value of the render) is serialized to a non-empty string that parses back to \<open>v\<close> and
  the store accepts it, a fresh instance on the same key starts at \<open>v\<close>. And when reading
  fails at creation (the store throws, the key is missing, or the stored string does not
  parse), the instance starts at the supplied default; the hook returns in every case.
\<close>

theorem useLocalStorage_round_trip:
  "(stringify (applyAction action (committed (storedValue s))) = Inr str \<and> str \<noteq> []
      \<and> parse str = Inr (applyAction action (committed (storedValue s)))
      \<and> setItem (storage s) key str = Inr ls
    \<longrightarrow> committed (storedValue (useLocalStorage parse key initialValue
            (storage (useLocalStorage_setValue stringify key action s)) log))
          = applyAction action (committed (storedValue s)))
   \<and> (getItem ls' key = Inl e \<or> getItem ls' key = Inr None
        \<or> (getItem ls' key = Inr (Some str') \<and> parse str' = Inl e)
    \<longrightarrow> committed (storedValue (useLocalStorage parse key initialValue ls' log)) = initialValue)"
  by (cases action)
    (auto simp add: useLocalStorage_def read_item_def useLocalStorage_setValue_def Let_def
      setItem_def getItem_def split: if_splits)

theorem useLocalStorage_round_trip_witness:
  "(let s = useLocalStorage parse_bool ''flag'' True
              \<lparr>items = Map.empty, quota = 10, denied = False\<rparr> [];
        s' = useLocalStorage_setValue stringify_bool ''flag'' (Value False) s
    in stringify_bool False = Inr ''false'' \<and> parse_bool ''false'' = Inr False
       \<and> items (storage s') ''flag'' = Some ''false''
       \<and> committed (storedValue (useLocalStorage parse_bool ''flag'' True (storage s') [])) = False
       \<and> getItem \<lparr>items = [''flag'' \<mapsto> ''tru''], quota = 10, denied = False\<rparr> ''flag''
            = Inr (Some ''tru'')
       \<and> parse_bool ''tru'' = Inl (Error ''SyntaxError'')
       \<and> committed (storedValue (useLocalStorage parse_bool ''flag'' True
            \<lparr>items = [''flag'' \<mapsto> ''tru''], quota = 10, denied = False\<rparr> [])) = True)"
  using useLocalStorage_round_trip [where stringify = stringify_bool and action = "Value False"
      and s = "useLocalStorage parse_bool ''flag'' True
                 \<lparr>items = Map.empty, quota = 10, denied = False\<rparr> []"
      and str = "''false''" and parse = parse_bool and key = "''flag''"
      and ls = "\<lparr>items = [''flag'' \<mapsto> ''false''], quota = 10, denied = False\<rparr>"
      and ls' = "\<lparr>items = [''flag'' \<mapsto> ''tru''], quota = 10, denied = False\<rparr>"
      and e = "Error ''SyntaxError''" and str' = "''tru''" and initialValue = True and log = "[]"]
  by (simp add: Let_def useLocalStorage_def read_item_def useLocalStorage_setValue_def
      setItem_def getItem_def stringify_bool_def parse_bool_def)

text \<open>
  C5. Every write puts its value in the cell. When the store accepts the serialized value,
  it is then stored under the key and nothing is logged; when the store refuses it, the
  store is as before, the failure is logged, and the cell still holds the new value.
\<close>

theorem useLocalStorage_setValue_persists:
  "pending (storedValue (useLocalStorage_setValue stringify key action s))
     = applyAction action (committed (storedValue s))
   \<and> (stringify (applyAction action (committed (storedValue s))) = Inr str
        \<and> setItem (storage s) key str = Inr ls
      \<longrightarrow> getItem (storage (useLocalStorage_setValue stringify key action s)) key = Inr (Some str)
          \<and> console_log (useLocalStorage_setValue stringify key action s) = console_log s)
   \<and> (stringify (applyAction action (committed (storedValue s))) = Inr str
        \<and> setItem (storage s) key str = Inl e
      \<longrightarrow> pending (storedValue (useLocalStorage_setValue stringify key action s))
            = applyAction action (committed (storedValue s))
          \<and> storage (useLocalStorage_setValue stringify key action s) = storage s
          \<and> console_log (useLocalStorage_setValue stringify key action s)
            = console_log s @ [(''Error setting localStorage key \"'' @ key @ ''\":'', e)])"
  by (cases action)
    (auto simp add: useLocalStorage_setValue_def Let_def getItem_setItem split: sum.splits)

theorem useLocalStorage_setValue_persists_witness:
  "(let s = useLocalStorage parse_bool ''flag'' True
              \<lparr>items = Map.empty, quota = 4, denied = False\<rparr> [];
        kept = useLocalStorage_setValue stringify_bool ''flag'' (Value True) s;
        refused = useLocalStorage_setValue stringify_bool ''flag'' (Updater (\<lambda>val. \<not> val)) s
    in setItem (storage s) ''flag'' ''true''
         = Inr \<lparr>items = [''flag'' \<mapsto> ''true''], quota = 4, denied = False\<rparr>
       \<and> getItem (storage kept) ''flag'' = Inr (Some ''true'')
       \<and> setItem (storage s) ''flag'' ''false'' = Inl (Error ''QuotaExceededError'')
       \<and> pending (storedValue refused) = False
       \<and> storage refused = storage s
       \<and> console_log refused
            = [(''Error setting localStorage key \"flag\":'', Error ''QuotaExceededError'')])"
  using useLocalStorage_setValue_persists [where stringify = stringify_bool
      and action = "Value True" and key = "''flag''" and str = "''true''"
      and s = "useLocalStorage parse_bool ''flag'' True
                 \<lparr>items = Map.empty, quota = 4, denied = False\<rparr> []"
      and ls = "\<lparr>items = [''flag'' \<mapsto> ''true''], quota = 4, denied = False\<rparr>"
      and e = "Error ''QuotaExceededError''"]
    useLocalStorage_setValue_persists [where stringify = stringify_bool
      and action = "Updater (\<lambda>val. \<not> val)" and key = "''flag''" and str = "''false''"
      and s = "useLocalStorage parse_bool ''flag'' True
                 \<lparr>items = Map.empty, quota = 4, denied = False\<rparr> []"
      and ls = "\<lparr>items = [''flag'' \<mapsto> ''true''], quota = 4, denied = False\<rparr>"
      and e = "Error ''QuotaExceededError''"]
  by (simp add: Let_def useLocalStorage_def read_item_def useLocalStorage_setValue_def
      setItem_def getItem_def stringify_bool_def)

section \<open>useApi: completions and failures\<close>

lemma show_nat_404: "show_nat 404 = ''404''"
  by code_simp

text \<open>
  C1, as claimed, fails: two fetches are started, the second settles with \<^verbatim>\<open>"second"\<close>,
  then the first settles with \<^verbatim>\<open>"first"\<close>; the late result of the first replaces the
  data of the second.
\<close>

theorem useApi_late_completion_counterexample:
  "(let r1 = Inr \<lparr>ok = True, status = 200, json = Inr ''first''\<rparr>;
        r2 = Inr \<lparr>ok = True, status = 200, json = Inr ''second''\<rparr>;
        after_r2 = api_run useApi [Fetch, Fetch, Settle r2];
        after_r1 = api_run after_r2 [Settle r1]
    in data after_r2 = Some ''second'' \<and> data after_r1 = Some ''first''
       \<and> after_r1 \<noteq> after_r2)"
  by (simp add: Let_def api_run_def useApi_def fetchData_start_def fetchData_settle_def
        fetchData_try_def)

text \<open>
  C1, amended. The hook keeps no request token: every completion is applied to the current
  state, in the order of arrival. After two fetches and the completion of one of them, the
  completion of the other still takes effect: a result becomes the data, a failure
  becomes the error, and loading becomes false.
\<close>

theorem useApi_arrival_order:
  "api_run s (es @ [Settle r]) = fetchData_settle r (api_run s es)
   \<and> data (api_run s [Fetch, Fetch, Settle r2,
              Settle (Inr \<lparr>ok = True, status = n, json = Inr result\<rparr>)]) = Some result
   \<and> loading (api_run s [Fetch, Fetch, Settle r2,
              Settle (Inr \<lparr>ok = True, status = n, json = Inr result\<rparr>)]) = False
   \<and> error (api_run s [Fetch, Fetch, Settle r2, Settle (Inl err)]) = Some (error_message err)
   \<and> loading (api_run s [Fetch, Fetch, Settle r2, Settle (Inl err)]) = False"
  by (simp add: api_run_def fetchData_settle_def fetchData_try_def Let_def)

text \<open>
  C4. A rejected request and a response that is not ok both make the body of the
  \<^verbatim>\<open>try\<close> throw; and whenever it throws, the completion sets the error to the message
  of what was thrown, sets loading to false and leaves the data as it was. The completion
  is a state, never an exception, and after any completion of a fetch loading is false.
\<close>

theorem fetchData_failure:
  "fetchData_try (Inl err) = Inl err
   \<and> (\<not> ok response \<longrightarrow>
        fetchData_try (Inr response)
          = Inl (Error (''HTTP error! status: '' @ show_nat (status response))))
   \<and> (fetchData_try settled = Inl err \<longrightarrow>
        error (fetchData_settle settled s) = Some (error_message err)
        \<and> loading (fetchData_settle settled s) = False
        \<and> data (fetchData_settle settled s) = data s)
   \<and> loading (api_run s [Fetch, Settle settled]) = False"
  by (simp add: fetchData_settle_def fetchData_try_def Let_def api_run_def)

theorem fetchData_failure_witness:
  "(let response = \<lparr>ok = False, status = 404, json = Inr ''body''\<rparr>;
        s = fetchData_start \<lparr>data = Some ''stale'', loading = False, error = None\<rparr>
    in \<not> ok response
       \<and> fetchData_try (Inr response) = Inl (Error ''HTTP error! status: 404'')
       \<and> error (fetchData_settle (Inr response) s) = Some ''HTTP error! status: 404''
       \<and> loading (fetchData_settle (Inr response) s) = False
       \<and> data (fetchData_settle (Inr response) s) = Some ''stale'')"
  using fetchData_failure [of "Error ''HTTP error! status: 404''"
      "\<lparr>ok = False, status = 404, json = Inr ''body''\<rparr>"
      "Inr \<lparr>ok = False, status = 404, json = Inr ''body''\<rparr>"
      "fetchData_start \<lparr>data = Some ''stale'', loading = False, error = None\<rparr>"]
  by (simp add: Let_def error_message_def fetchData_start_def fetchData_try_def
      fetchData_settle_def show_nat_404)

section \<open>usePrevious\<close>

lemma previous_renders_butlast:
  "previous_renders ref (v # vs) = ref # map Some (butlast (v # vs))"
  by (induction vs arbitrary: ref v) (simp_all add: usePrevious_def)

text \<open>
  C8. Over any sequence of renders, starting with the ref unset, the first render returns
  nothing and every later render returns the argument of the render before it.
\<close>

theorem usePrevious_lags_one_render:
  "previous_renders None [] = []
   \<and> previous_renders None (v # vs) = None # map Some (butlast (v # vs))"
  by (simp only: previous_renders_butlast previous_renders.simps(1) simp_thms)

section \<open>useForm\<close>

lemma truthy_get_property:
  "truthy (get_property obj name)
     = ((\<exists>m. obj name = Some (Some m) \<and> m \<noteq> [])
        \<or> (obj name = None \<and> List.member Object_prototype name))"
  by (auto simp add: truthy_def get_property_def split: option.splits)

text \<open>
  C10, as claimed, fails at a field named like a member of \<^verbatim>\<open>Object.prototype\<close>. On a
  fresh form no error is recorded for \<^verbatim>\<open>toString\<close>, yet \<^verbatim>\<open>errors['toString']\<close> is the
  inherited function, the guard passes and \<^verbatim>\<open>setValue('toString', 'x')\<close> writes to the
  errors: the object gets an own property and \<^verbatim>\<open>errors['toString']\<close> reads
  \<^verbatim>\<open>undefined\<close> after the render; and a \<^verbatim>\<open>setError('toString', 'bad')\<close> of the same
  batch is wiped.
\<close>

theorem useForm_setValue_frame_counterexample:
  "(let s0 = useForm [''toString'' \<mapsto> ''''];
        s1 = useForm_setValue ''toString'' ''x'' s0;
        s2 = useForm_setValue ''toString'' ''x'' (useForm_setError ''toString'' ''bad'' s0)
    in message (committed (form_errors s0)) ''toString'' = None
       \<and> get_property (committed (form_errors s0)) ''toString'' = Builtin
       \<and> queue (form_errors s0) = []
       \<and> length (queue (form_errors s1)) = 1
       \<and> form_errors s1 \<noteq> form_errors s0
       \<and> pending (form_errors s1) ''toString'' = Some None
       \<and> get_property (committed (form_errors (form_rerender s1))) ''toString'' = Undefined
       \<and> pending (form_errors (useForm_setError ''toString'' ''bad'' s0)) ''toString''
            = Some (Some ''bad'')
       \<and> message (pending (form_errors s2)) ''toString'' = None)"
  by (simp add: Let_def useForm_def useForm_setValue_def useForm_setError_def form_rerender_def
      truthy_def get_property_def message_def Object_prototype_def setState_def useState_def
      pending_def)

text \<open>
  C10, amended. \<^verbatim>\<open>setValue(f, v)\<close> leaves the error of every other field as it was. It
  writes to the errors exactly when \<^verbatim>\<open>errors[f]\<close>, as the render reads it, is truthy:
  when it is not, the errors are left untouched, and when it is, the one write makes
  \<open>f\<close> an own property holding \<^verbatim>\<open>undefined\<close>. And \<^verbatim>\<open>errors[f]\<close> is truthy exactly when
  the object holds a non-empty message for \<open>f\<close>, or holds no property \<open>f\<close> and \<open>f\<close> names
  a member of \<^verbatim>\<open>Object.prototype\<close>.
\<close>

theorem useForm_setValue_frame:
  "(g \<noteq> f \<longrightarrow>
      pending (form_errors (useForm_setValue f v s)) g = pending (form_errors s) g
      \<and> get_property (pending (form_errors (useForm_setValue f v s))) g
          = get_property (pending (form_errors s)) g)
   \<and> (\<not> truthy (get_property (committed (form_errors s)) f) \<longrightarrow>
      form_errors (useForm_setValue f v s) = form_errors s)
   \<and> (truthy (get_property (committed (form_errors s)) f) \<longrightarrow>
      pending (form_errors (useForm_setValue f v s)) = (pending (form_errors s))(f \<mapsto> None))
   \<and> truthy (get_property (committed (form_errors s)) f)
       = ((\<exists>m. committed (form_errors s) f = Some (Some m) \<and> m \<noteq> [])
          \<or> (committed (form_errors s) f = None \<and> List.member Object_prototype f))"
proof -
  have own: "g \<noteq> f \<longrightarrow>
      pending (form_errors (useForm_setValue f v s)) g = pending (form_errors s) g"
    by (simp add: useForm_setValue_def Let_def)
  then have "g \<noteq> f \<longrightarrow>
      get_property (pending (form_errors (useForm_setValue f v s))) g
        = get_property (pending (form_errors s)) g"
    by (simp add: get_property_def)
  moreover have "\<not> truthy (get_property (committed (form_errors s)) f) \<longrightarrow>
      form_errors (useForm_setValue f v s) = form_errors s"
    by (simp add: useForm_setValue_def Let_def)
  moreover have "truthy (get_property (committed (form_errors s)) f) \<longrightarrow>
      pending (form_errors (useForm_setValue f v s)) = (pending (form_errors s))(f \<mapsto> None)"
    by (simp add: useForm_setValue_def Let_def)
  ultimately show ?thesis
    using own truthy_get_property [of "committed (form_errors s)" f] by blast
qed

theorem useForm_setValue_frame_witness:
  "(let s = form_rerender (useForm_setError ''password'' ''Password is required''
              (useForm [''email'' \<mapsto> '''', ''password'' \<mapsto> '''']))
    in ''password'' \<noteq> ''email''
       \<and> pending (form_errors (useForm_setValue ''email'' ''a'' s)) ''password''
            = Some (Some ''Password is required'')
       \<and> \<not> truthy (get_property (committed (form_errors s)) ''email'')
       \<and> form_errors (useForm_setValue ''email'' ''a'' s) = form_errors s
       \<and> truthy (get_property (committed (form_errors s)) ''password'')
       \<and> pending (form_errors (useForm_setValue ''password'' ''pw'' s)) ''password''
            = Some None)"
  using useForm_setValue_frame [of "''password''" "''email''" "''a''"
      "form_rerender (useForm_setError ''password'' ''Password is required''
              (useForm [''email'' \<mapsto> '''', ''password'' \<mapsto> '''']))"]
    useForm_setValue_frame [of "''email''" "''password''" "''pw''"
      "form_rerender (useForm_setError ''password'' ''Password is required''
              (useForm [''email'' \<mapsto> '''', ''password'' \<mapsto> '''']))"]
  by (simp add: Let_def form_rerender_def useForm_setError_def useForm_def truthy_def
      get_property_def Object_prototype_def)

text \<open>
  C6, as claimed, fails in two ways. In one batch, \<^verbatim>\<open>setError('email', 'x')\<close> followed by
  \<^verbatim>\<open>setValue('email', 'a@b.com')\<close> leaves the error \<^verbatim>\<open>'x'\<close>: the handler tests the
  errors of the render, which hold nothing yet. And with a render between the two calls,
  an empty message set by \<^verbatim>\<open>setError('email', '')\<close> is not truthy and stays.
\<close>

theorem useForm_setValue_counterexample:
  "(let s0 = useForm [''email'' \<mapsto> '''', ''password'' \<mapsto> ''''];
        batch = form_rerender (useForm_setValue ''email'' ''a@b.com''
                  (useForm_setError ''email'' ''x'' s0));
        s1 = form_rerender (useForm_setError ''email'' '''' s0);
        s2 = form_rerender (useForm_setValue ''email'' ''a@b.com'' s1)
    in get_property (committed (form_errors batch)) ''email'' = Text ''x''
       \<and> get_property (committed (form_errors s2)) ''email'' = Text '''')"
  by (simp add: Let_def form_rerender_def useForm_setError_def useForm_setValue_def useForm_def
        truthy_def get_property_def Object_prototype_def)

text \<open>
  C6, amended. \<^verbatim>\<open>setValue(f, v)\<close> writes \<open>v\<close> at \<open>f\<close> in the values; called when no
  write to the errors is pending, it removes the error of \<open>f\<close> when that is a non-empty
  message and leaves the recorded errors as they are otherwise, so that no truthy error
  of \<open>f\<close> remains. \<^verbatim>\<open>setError(f, msg)\<close> writes \<open>msg\<close> at \<open>f\<close> in the errors and does not
  touch the values. \<^verbatim>\<open>reset()\<close> makes the values the initial mapping and the errors
  empty. And \<^verbatim>\<open>setError('email', 'x')\<close>, a render, then
  \<^verbatim>\<open>setValue('email', 'a@b.com')\<close> leave no error at \<^verbatim>\<open>email\<close> and the value
  \<^verbatim>\<open>'a@b.com'\<close>.
\<close>

theorem useForm_contract:
  "pending (form_values (useForm_setValue f v s)) = (pending (form_values s))(f \<mapsto> v)
   \<and> (queue (form_errors s) = [] \<longrightarrow>
        message (pending (form_errors (useForm_setValue f v s)))
          = (if nonempty_message (get_property (committed (form_errors s)) f)
             then (message (committed (form_errors s)))(f := None)
             else message (committed (form_errors s)))
        \<and> pending (form_errors (useForm_setValue f v s))
          = (if truthy (get_property (committed (form_errors s)) f)
             then (committed (form_errors s))(f \<mapsto> None)
             else committed (form_errors s))
        \<and> \<not> truthy (get_property (pending (form_errors (useForm_setValue f v s))) f))
   \<and> pending (form_errors (useForm_setError f msg s)) = (pending (form_errors s))(f \<mapsto> Some msg)
   \<and> get_property (pending (form_errors (useForm_setError f msg s))) f = Text msg
   \<and> form_values (useForm_setError f msg s) = form_values s
   \<and> pending (form_values (useForm_reset initialValues s)) = initialValues
   \<and> pending (form_errors (useForm_reset initialValues s)) = Map.empty
   \<and> (let s1 = form_rerender (useForm_setError ''email'' ''x'' t);
           s2 = form_rerender (useForm_setValue ''email'' ''a@b.com'' s1)
       in get_property (committed (form_errors s2)) ''email'' = Undefined
          \<and> message (committed (form_errors s2)) ''email'' = None
          \<and> committed (form_values s2) ''email'' = Some ''a@b.com'')"
  by (auto simp add: useForm_setValue_def useForm_setError_def useForm_reset_def
        form_rerender_def Let_def truthy_def nonempty_message_def message_def get_property_def
        pending_empty_queue fun_eq_iff split: option.splits property.splits)

theorem useForm_contract_witness:
  "(let s = form_rerender (useForm_setError ''email'' ''x''
              (useForm [''email'' \<mapsto> '''', ''password'' \<mapsto> '''']))
    in queue (form_errors s) = []
       \<and> get_property (committed (form_errors s)) ''email'' = Text ''x''
       \<and> get_property (pending (form_errors (useForm_setValue ''email'' ''a@b.com'' s))) ''email''
            = Undefined
       \<and> message (pending (form_errors (useForm_setValue ''email'' ''a@b.com'' s))) = Map.empty
       \<and> pending (form_values (useForm_setValue ''email'' ''a@b.com'' s)) ''email''
            = Some ''a@b.com'')"
  using useForm_contract [where f = "''email''" and v = "''a@b.com''"
      and s = "form_rerender (useForm_setError ''email'' ''x''
              (useForm [''email'' \<mapsto> '''', ''password'' \<mapsto> '''']))"]
  by (auto simp add: Let_def form_rerender_def useForm_setError_def useForm_def truthy_def
      nonempty_message_def message_def get_property_def pending_empty_queue fun_eq_iff
      Object_prototype_def)

section \<open>useDebounce\<close>










end
